theory Spec2Isabelle
  imports Complex_Main "HOL-Library.Word" "HOL-Library.Monad_Syntax"
begin

section \<open>A WebGPU Game of Life: the shaders and the frame driver\<close>

text \<open>
  The repository holds two JavaScript programs that drive WGSL shaders: the simulated
  variant (compute shader \<open>computeMain\<close>, render shaders \<open>vertexMain\<close> and
  \<open>fragmentMain\<close>, the frame driver \<open>render\<close>) and the static variant \<open>run.js\<close>
  (render shaders only).

  Conventions of the embedding.
  \<^item> \<open>u32\<close> is a 32-bit word: \<open>+\<close>, \<open>-\<close> and \<open>*\<close> wrap around as in WGSL.
  \<^item> \<open>f32\<close> values are modelled by the real numbers they denote. The conversion
    \<open>f32(e)\<close> of an unsigned integer rounds to a significand of 24 bits; the arithmetic
    operators are exact. Infinities and NaN are outside the model.
  \<^item> A storage buffer is a list of \<open>u32\<close>. An access outside the buffer has no defined
    value in WGSL; here it is \<open>None\<close>, and every function that makes such an access
    returns \<open>None\<close>.
  \<^item> The JavaScript number \<open>step\<close> is a natural number (JavaScript numbers are exact on
    the integers below \<open>2 ^ 53\<close>).
\<close>

type_synonym u32 = "32 word"
type_synonym f32 = real

record vec2f =
  fx :: f32
  fy :: f32

record vec2u =
  ux :: u32
  uy :: u32

record vec4f =
  px :: f32
  py :: f32
  pz :: f32
  pw :: f32

subsection \<open>WGSL primitives\<close>

text \<open>Conversion of a float to an integer rounds towards zero.\<close>

definition f32_trunc :: "f32 \<Rightarrow> int" where
  "f32_trunc r = (if 0 \<le> r then \<lfloor>r\<rfloor> else \<lceil>r\<rceil>)"

text \<open>\<open>u32(e)\<close> for a float \<open>e\<close>: truncation, clamped to the range of \<open>u32\<close>.\<close>

definition u32_of_f32 :: "f32 \<Rightarrow> u32" where
  "u32_of_f32 r = word_of_int (max 0 (min (2 ^ 32 - 1) (f32_trunc r)))"

text \<open>
  \<open>f32(e)\<close> for an unsigned integer \<open>e\<close>. An \<open>f32\<close> has a significand of 24 bits:
  integers below \<open>2 ^ 24\<close> are converted exactly, a larger one loses its low bits and is
  rounded to the nearest value that remains, a tie to the even significand.
  \<open>f32_exponent n\<close> is the number of low bits that \<open>n\<close> loses.
\<close>

function f32_exponent :: "nat \<Rightarrow> nat" where
  "f32_exponent n = (if n < 2 ^ 24 then 0 else Suc (f32_exponent (n div 2)))"
  by pat_completeness auto
termination
  by (relation "measure (\<lambda>n. n)") auto

declare f32_exponent.simps [simp del]

definition f32_round_nat :: "nat \<Rightarrow> nat" where
  "f32_round_nat n =
     (let e = f32_exponent n; q = n div 2 ^ e; r = n mod 2 ^ e
      in (if 2 ^ e < 2 * r \<or> (2 * r = 2 ^ e \<and> odd q) then q + 1 else q) * 2 ^ e)"

definition f32_of_u32 :: "u32 \<Rightarrow> f32" where
  "f32_of_u32 w = real (f32_round_nat (unat w))"

text \<open>\<open>e1 % e2\<close> on \<open>u32\<close>; WGSL gives 0 for a zero divisor.\<close>

definition umod :: "u32 \<Rightarrow> u32 \<Rightarrow> u32" where
  "umod a b = (if b = 0 then 0 else a mod b)"

text \<open>\<open>e1 % e2\<close> on \<open>f32\<close>: \<open>e1 - e2 * trunc(e1 / e2)\<close>.\<close>

definition fmod :: "f32 \<Rightarrow> f32 \<Rightarrow> f32" where
  "fmod a b = a - b * of_int (f32_trunc (a / b))"

text \<open>Reading and writing one element of a storage buffer.\<close>

definition load :: "u32 list \<Rightarrow> u32 \<Rightarrow> u32 option" where
  "load buf i = (if unat i < length buf then Some (buf ! unat i) else None)"

definition store :: "u32 list \<Rightarrow> u32 \<Rightarrow> u32 \<Rightarrow> u32 list option" where
  "store buf i v = (if unat i < length buf then Some (buf[unat i := v]) else None)"

text \<open>Component-wise vector arithmetic, as the WGSL operators on \<open>vec2f\<close>.\<close>

definition vec2f_mul_s :: "vec2f \<Rightarrow> f32 \<Rightarrow> vec2f" where
  "vec2f_mul_s v s = \<lparr>fx = fx v * s, fy = fy v * s\<rparr>"

definition vec2f_add_s :: "vec2f \<Rightarrow> f32 \<Rightarrow> vec2f" where
  "vec2f_add_s v s = \<lparr>fx = fx v + s, fy = fy v + s\<rparr>"

definition vec2f_sub_s :: "vec2f \<Rightarrow> f32 \<Rightarrow> vec2f" where
  "vec2f_sub_s v s = \<lparr>fx = fx v - s, fy = fy v - s\<rparr>"

definition vec2f_div :: "vec2f \<Rightarrow> vec2f \<Rightarrow> vec2f" where
  "vec2f_div v w = \<lparr>fx = fx v / fx w, fy = fy v / fy w\<rparr>"

definition vec2f_add :: "vec2f \<Rightarrow> vec2f \<Rightarrow> vec2f" where
  "vec2f_add v w = \<lparr>fx = fx v + fx w, fy = fy v + fy w\<rparr>"

subsection \<open>The simulation shader\<close>

text \<open>
  \<^verbatim>\<open>fn cellIndex(cell: vec2u) -> u32 {
      return (cell.y % u32(grid.y)) * u32(grid.x) + (cell.x % u32(grid.x)); }\<close>
  The uniform \<open>grid\<close> is a parameter of every shader function.
\<close>

definition cellIndex :: "vec2f \<Rightarrow> vec2u \<Rightarrow> u32" where
  "cellIndex grid cell =
     umod (uy cell) (u32_of_f32 (fy grid)) * u32_of_f32 (fx grid) +
     umod (ux cell) (u32_of_f32 (fx grid))"

text \<open>\<^verbatim>\<open>fn cellActive(x: u32, y: u32) -> u32 { return cellStateIn[cellIndex(vec2(x, y))]; }\<close>\<close>

definition cellActive :: "vec2f \<Rightarrow> u32 list \<Rightarrow> u32 \<Rightarrow> u32 \<Rightarrow> u32 option" where
  "cellActive grid cellStateIn x y = load cellStateIn (cellIndex grid \<lparr>ux = x, uy = y\<rparr>)"

text \<open>
  The value bound by \<^verbatim>\<open>let activeNeighbors = ...\<close> in \<open>computeMain\<close>: eight reads, in the
  order of the source, added in \<open>u32\<close>. The invocation id is a \<open>vec3u\<close> of which the
  shader uses \<open>x\<close> and \<open>y\<close> only.
\<close>

definition activeNeighbors :: "vec2f \<Rightarrow> u32 list \<Rightarrow> vec2u \<Rightarrow> u32 option" where
  "activeNeighbors grid cellStateIn cell = do {
     a1 \<leftarrow> cellActive grid cellStateIn (ux cell + 1) (uy cell + 1);
     a2 \<leftarrow> cellActive grid cellStateIn (ux cell + 1) (uy cell);
     a3 \<leftarrow> cellActive grid cellStateIn (ux cell + 1) (uy cell - 1);
     a4 \<leftarrow> cellActive grid cellStateIn (ux cell) (uy cell - 1);
     a5 \<leftarrow> cellActive grid cellStateIn (ux cell - 1) (uy cell - 1);
     a6 \<leftarrow> cellActive grid cellStateIn (ux cell - 1) (uy cell);
     a7 \<leftarrow> cellActive grid cellStateIn (ux cell - 1) (uy cell + 1);
     a8 \<leftarrow> cellActive grid cellStateIn (ux cell) (uy cell + 1);
     Some (a1 + a2 + a3 + a4 + a5 + a6 + a7 + a8)
   }"

text \<open>
  \<open>computeMain\<close>: one invocation, reading \<open>cellStateIn\<close> and returning the updated
  \<open>cellStateOut\<close>. A WGSL \<open>switch\<close> does not fall through.
\<close>

definition computeMain :: "vec2f \<Rightarrow> u32 list \<Rightarrow> u32 list \<Rightarrow> vec2u \<Rightarrow> u32 list option" where
  "computeMain grid cellStateIn cellStateOut cell = do {
     n \<leftarrow> activeNeighbors grid cellStateIn cell;
     let i = cellIndex grid cell;
     if n = 2 then do { v \<leftarrow> load cellStateIn i; store cellStateOut i v }
     else if n = 3 then store cellStateOut i 1
     else store cellStateOut i 0
   }"

subsection \<open>Bind groups and the compute dispatch\<close>

text \<open>
  \<open>cellStateStorage\<close> is a list of two buffers, \<open>Cell State A\<close> at index 0 and
  \<open>Cell State B\<close> at index 1. A bind group names, by their index in
  \<open>cellStateStorage\<close>, the buffer bound at binding 1 (\<open>cellStateIn\<close> of the compute
  shader, \<open>cell_state\<close> of the vertex shader) and at binding 2 (\<open>cellStateOut\<close>).
  Binding 0 is the grid uniform in both groups.
\<close>

record bindGroup =
  binding1 :: nat
  binding2 :: nat

definition bindGroups :: "bindGroup list" where
  "bindGroups = [\<lparr>binding1 = 0, binding2 = 1\<rparr>, \<lparr>binding1 = 1, binding2 = 0\<rparr>]"

text \<open>
  One invocation of \<open>computeMain\<close> on the shared buffers: it reads the buffer at binding 1
  and writes the buffer at binding 2, as they are when it runs.
\<close>

definition invoke :: "vec2f \<Rightarrow> bindGroup \<Rightarrow> u32 list list \<Rightarrow> vec2u \<Rightarrow> u32 list list option" where
  "invoke grid bg bufs cell =
     (if binding1 bg < length bufs \<and> binding2 bg < length bufs then
        map_option (\<lambda>out. bufs[binding2 bg := out])
          (computeMain grid (bufs ! binding1 bg) (bufs ! binding2 bg) cell)
      else None)"

text \<open>
  A dispatch runs one invocation for each global invocation id. The GPU fixes no order
  among them; the model runs them one after the other, in the order of the list.
\<close>

fun run_invocations ::
  "vec2f \<Rightarrow> bindGroup \<Rightarrow> vec2u list \<Rightarrow> u32 list list \<Rightarrow> u32 list list option" where
  "run_invocations grid bg [] bufs = Some bufs"
| "run_invocations grid bg (c # cs) bufs =
     (case invoke grid bg bufs c of
        None \<Rightarrow> None
      | Some bufs' \<Rightarrow> run_invocations grid bg cs bufs')"

text \<open>
  \<open>dispatchWorkgroups(cx, cy)\<close> with workgroups of \<open>wg \<times> wg\<close> invocations: the ids range
  over \<open>[0, cx * wg) \<times> [0, cy * wg)\<close>.
\<close>

definition global_ids :: "nat \<Rightarrow> nat \<Rightarrow> nat \<Rightarrow> vec2u list" where
  "global_ids wg cx cy =
     concat (map (\<lambda>y. map (\<lambda>x. \<lparr>ux = of_nat x, uy = of_nat y\<rparr>) [0..<cx * wg]) [0..<cy * wg])"

definition dispatchWorkgroups ::
  "vec2f \<Rightarrow> nat \<Rightarrow> bindGroup \<Rightarrow> nat \<Rightarrow> nat \<Rightarrow> u32 list list \<Rightarrow> u32 list list option" where
  "dispatchWorkgroups grid wg bg cx cy bufs = run_invocations grid bg (global_ids wg cx cy) bufs"

text \<open>
  The compute passes of \<open>n\<close> consecutive calls of \<open>render\<close>, the first of them at the
  given value of \<open>step\<close>: each call dispatches with \<open>bindGroups[step % 2]\<close> over
  \<open>wc \<times> wc\<close> workgroups and increments \<open>step\<close>.
\<close>

fun simulate ::
  "vec2f \<Rightarrow> nat \<Rightarrow> nat \<Rightarrow> nat \<Rightarrow> nat \<Rightarrow> u32 list list \<Rightarrow> u32 list list option" where
  "simulate grid wg wc 0 step bufs = Some bufs"
| "simulate grid wg wc (Suc n) step bufs =
     (case dispatchWorkgroups grid wg (bindGroups ! (step mod 2)) wc wc bufs of
        None \<Rightarrow> None
      | Some bufs' \<Rightarrow> simulate grid wg wc n (step + 1) bufs')"

text \<open>
  The same compute passes with the order of the invocations of each dispatch given: the
  call number \<open>k\<close> runs one invocation for each id of the \<open>k\<close>-th list, in the order of
  that list. With the list \<open>global_ids wg wc wc\<close> for each call this is \<open>simulate\<close>.
\<close>

fun simulate_scheduled ::
  "vec2f \<Rightarrow> vec2u list list \<Rightarrow> nat \<Rightarrow> u32 list list \<Rightarrow> u32 list list option" where
  "simulate_scheduled grid [] step bufs = Some bufs"
| "simulate_scheduled grid (ids # rest) step bufs =
     (case run_invocations grid (bindGroups ! (step mod 2)) ids bufs of
        None \<Rightarrow> None
      | Some bufs' \<Rightarrow> simulate_scheduled grid rest (step + 1) bufs')"

subsection \<open>The render shaders of the simulated variant\<close>

record VertexInput =
  vi_pos :: vec2f
  vi_instance :: u32

record VertexOutput =
  vo_pos :: vec4f
  vo_cell :: vec2f

text \<open>
  \<^verbatim>\<open>let i = f32(input.instance);
  let cell = vec2f(i % grid.x, floor(i / grid.x));
  let cell_offset = cell / grid * 2;
  let curr_state = f32(cell_state[input.instance]);
  let grid_pos = ((input.pos * curr_state + 1) / grid) - 1 + cell_offset;
  output.pos = vec4f(grid_pos, 0, 1);
  output.cell = cell;\<close>
\<close>

definition vertexMain :: "vec2f \<Rightarrow> u32 list \<Rightarrow> VertexInput \<Rightarrow> VertexOutput option" where
  "vertexMain grid cell_state input = do {
     let i = f32_of_u32 (vi_instance input);
     let cell = \<lparr>fx = fmod i (fx grid), fy = of_int \<lfloor>i / fx grid\<rfloor>\<rparr>;
     let cell_offset = vec2f_mul_s (vec2f_div cell grid) 2;
     s \<leftarrow> load cell_state (vi_instance input);
     let curr_state = f32_of_u32 s;
     let grid_pos =
       vec2f_add
         (vec2f_sub_s (vec2f_div (vec2f_add_s (vec2f_mul_s (vi_pos input) curr_state) 1) grid) 1)
         cell_offset;
     Some \<lparr>vo_pos = \<lparr>px = fx grid_pos, py = fy grid_pos, pz = 0, pw = 1\<rparr>, vo_cell = cell\<rparr>
   }"

text \<open>\<^verbatim>\<open>let c = input.cell / grid; return vec4f(c.xy, 1-c.x, 1);\<close>\<close>

definition fragmentMain :: "vec2f \<Rightarrow> VertexOutput \<Rightarrow> vec4f" where
  "fragmentMain grid input =
     (let c = vec2f_div (vo_cell input) grid
      in \<lparr>px = fx c, py = fy c, pz = 1 - fx c, pw = 1\<rparr>)"

subsection \<open>The render shaders of the static variant (\<open>run.js\<close>)\<close>

text \<open>
  The same shader without the cell state:
  \<^verbatim>\<open>let grid_pos = ((input.pos + 1) / grid) - 1 + cell_offset;\<close>
\<close>

definition vertexMain_run :: "vec2f \<Rightarrow> VertexInput \<Rightarrow> VertexOutput" where
  "vertexMain_run grid input =
     (let i = f32_of_u32 (vi_instance input);
          cell = \<lparr>fx = fmod i (fx grid), fy = of_int \<lfloor>i / fx grid\<rfloor>\<rparr>;
          cell_offset = vec2f_mul_s (vec2f_div cell grid) 2;
          grid_pos =
            vec2f_add (vec2f_sub_s (vec2f_div (vec2f_add_s (vi_pos input) 1) grid) 1) cell_offset
      in \<lparr>vo_pos = \<lparr>px = fx grid_pos, py = fy grid_pos, pz = 0, pw = 1\<rparr>, vo_cell = cell\<rparr>)"

definition fragmentMain_run :: "vec2f \<Rightarrow> VertexOutput \<Rightarrow> vec4f" where
  "fragmentMain_run grid input =
     (let c = vec2f_div (vo_cell input) grid
      in \<lparr>px = fx c, py = fy c, pz = 1 - fx c, pw = 1\<rparr>)"

subsection \<open>The JavaScript driver\<close>

definition GRID_SIZE :: nat where
  "GRID_SIZE = 64"

definition WORKGROUP_SIZE :: nat where
  "WORKGROUP_SIZE = 8"

text \<open>
  The functions below take the grid size \<open>gs\<close> and the workgroup size \<open>wg\<close> as
  parameters; the program runs them at \<open>GRID_SIZE\<close> and \<open>WORKGROUP_SIZE\<close>.
\<close>

text \<open>The six vertices of the quad, two per triangle.\<close>

definition vertices :: "vec2f list" where
  "vertices =
     [\<lparr>fx = - 0.8, fy = - 0.8\<rparr>, \<lparr>fx = 0.8, fy = - 0.8\<rparr>, \<lparr>fx = 0.8, fy = 0.8\<rparr>,
      \<lparr>fx = - 0.8, fy = - 0.8\<rparr>, \<lparr>fx = 0.8, fy = 0.8\<rparr>, \<lparr>fx = - 0.8, fy = 0.8\<rparr>]"

text \<open>\<^verbatim>\<open>const uniformArray = new Float32Array([GRID_SIZE, GRID_SIZE]);\<close>\<close>

definition uniformArray :: "nat \<Rightarrow> vec2f" where
  "uniformArray gs = \<lparr>fx = real gs, fy = real gs\<rparr>"

text \<open>\<open>device.createBuffer\<close>: a buffer of \<open>n\<close> elements; WebGPU creates it filled with zeros.\<close>

definition createBuffer :: "nat \<Rightarrow> u32 list" where
  "createBuffer n = replicate n 0"

text \<open>
  \<open>device.queue.writeBuffer(buffer, 0, data)\<close>: copies \<open>data\<close> to the start of the
  buffer; data longer than the buffer is refused.
\<close>

definition writeBuffer :: "u32 list \<Rightarrow> u32 list \<Rightarrow> u32 list option" where
  "writeBuffer buffer data =
     (if length data \<le> length buffer then Some (data @ drop (length data) buffer) else None)"

text \<open>
  \<^verbatim>\<open>for (let i = 0; i < cellStateArray.length; ++i) {
      cellStateArray[i] = Math.random() > 0.6 ? 1 : 0; }\<close>
  \<open>random i\<close> is the value that the call of \<open>Math.random()\<close> in iteration \<open>i\<close> returns.
\<close>

definition cellStateArray :: "nat \<Rightarrow> (nat \<Rightarrow> real) \<Rightarrow> u32 list" where
  "cellStateArray gs random = map (\<lambda>i. if random i > 0.6 then 1 else 0) [0..<gs * gs]"

text \<open>The state of the running program: the counter \<open>step\<close> and the two cell buffers.\<close>

record app_state =
  st_step :: nat
  cellStateStorage :: "u32 list list"

text \<open>
  The top-level script up to \<open>let step = 0\<close>: both buffers are created, the random
  cells are written to \<open>cellStateStorage[0]\<close>.
\<close>

definition startup :: "nat \<Rightarrow> (nat \<Rightarrow> real) \<Rightarrow> app_state option" where
  "startup gs random = do {
     let bufA = createBuffer (gs * gs);
     let bufB = createBuffer (gs * gs);
     bufA' \<leftarrow> writeBuffer bufA (cellStateArray gs random);
     Some \<lparr>st_step = 0, cellStateStorage = [bufA', bufB]\<rparr>
   }"

text \<open>The commands that \<open>render\<close> encodes: a compute pass and a render pass.\<close>

datatype command =
  ComputePass bindGroup nat nat
| RenderPass bindGroup nat nat

text \<open>\<^verbatim>\<open>const workgroupCount = Math.ceil(GRID_SIZE / WORKGROUP_SIZE);\<close>\<close>

definition workgroupCount :: "nat \<Rightarrow> nat \<Rightarrow> nat" where
  "workgroupCount gs wg = nat \<lceil>real gs / real wg\<rceil>"

text \<open>
  \<open>render\<close> up to \<open>encoder.finish()\<close>: the encoded commands and the new value of
  \<open>step\<close>. The compute pass is encoded with \<open>bindGroups[step % 2]\<close>, then \<open>step++\<close>,
  then the render pass with \<open>bindGroups[step % 2]\<close>, drawing \<open>vertices.length / 2\<close>
  vertices (the length of the list \<open>vertices\<close>) and \<open>GRID_SIZE * GRID_SIZE\<close> instances.
\<close>

definition render :: "nat \<Rightarrow> nat \<Rightarrow> nat \<Rightarrow> command list \<times> nat" where
  "render gs wg step =
     (let computePass =
            ComputePass (bindGroups ! (step mod 2)) (workgroupCount gs wg) (workgroupCount gs wg);
          step' = step + 1;
          pass = RenderPass (bindGroups ! (step' mod 2)) (length vertices) (gs * gs)
      in ([computePass, pass], step'))"

text \<open>
  \<open>pass.draw(vertexCount, instanceCount)\<close>: the vertex shader runs on every vertex of
  every instance, reading the buffer at binding 1.
\<close>

definition draw ::
  "vec2f \<Rightarrow> u32 list \<Rightarrow> nat \<Rightarrow> nat \<Rightarrow> VertexOutput list list option" where
  "draw grid cell_state vertexCount instanceCount =
     those (map (\<lambda>inst.
              those (map (\<lambda>v. vertexMain grid cell_state \<lparr>vi_pos = v, vi_instance = of_nat inst\<rparr>)
                       (take vertexCount vertices)))
            [0..<instanceCount])"

text \<open>
  \<open>device.queue.submit\<close>: the commands run in the order of their encoding; the result
  is the buffers and the geometry drawn.
\<close>

fun submit ::
  "vec2f \<Rightarrow> nat \<Rightarrow> command list \<Rightarrow> u32 list list \<times> VertexOutput list list list \<Rightarrow>
   (u32 list list \<times> VertexOutput list list list) option" where
  "submit grid wg [] r = Some r"
| "submit grid wg (ComputePass bg cx cy # cs) (bufs, frames) =
     (case dispatchWorkgroups grid wg bg cx cy bufs of
        None \<Rightarrow> None
      | Some bufs' \<Rightarrow> submit grid wg cs (bufs', frames))"
| "submit grid wg (RenderPass bg vc ic # cs) (bufs, frames) =
     (if binding1 bg < length bufs then
        (case draw grid (bufs ! binding1 bg) vc ic of
           None \<Rightarrow> None
         | Some f \<Rightarrow> submit grid wg cs (bufs, frames @ [f]))
      else None)"

text \<open>One call of \<open>render\<close> by the timer: encode, then submit.\<close>

definition tick ::
  "nat \<Rightarrow> nat \<Rightarrow> app_state \<Rightarrow> (app_state \<times> VertexOutput list list list) option" where
  "tick gs wg st =
     (case render gs wg (st_step st) of
        (cmds, step') \<Rightarrow>
          map_option (\<lambda>(bufs, frames). (\<lparr>st_step = step', cellStateStorage = bufs\<rparr>, frames))
            (submit (uniformArray gs) wg cmds (cellStateStorage st, [])))"

subsection \<open>The grid model of the specification\<close>

text \<open>
  The wrapped linear index as the specification writes it, on mathematical integers:
  \<open>((y mod H + H) mod H) * W + ((x mod W + W) mod W)\<close>.
\<close>

definition wrapIndex :: "nat \<Rightarrow> nat \<Rightarrow> int \<Rightarrow> int \<Rightarrow> nat" where
  "wrapIndex W H x y =
     nat (((y mod int H + int H) mod int H) * int W + ((x mod int W + int W) mod int W))"

text \<open>The eight offsets of the Moore neighbourhood; \<open>(0, 0)\<close> is not among them.\<close>

definition mooreOffsets :: "(int \<times> int) list" where
  "mooreOffsets = [(1, 1), (1, 0), (1, - 1), (0, - 1), (- 1, - 1), (- 1, 0), (- 1, 1), (0, 1)]"

text \<open>The sum of the states of the eight wrapped Moore neighbours of \<open>(x, y)\<close>.\<close>

definition mooreSum :: "nat \<Rightarrow> nat \<Rightarrow> u32 list \<Rightarrow> int \<Rightarrow> int \<Rightarrow> u32" where
  "mooreSum W H buf x y =
     sum_list (map (\<lambda>(dx, dy). buf ! wrapIndex W H (x + dx) (y + dy)) mooreOffsets)"



subsection \<open>Reference definitions for the render and dispatch properties\<close>

text \<open>
  A dispatch in which every invocation reads a fixed copy of the input buffer, taken
  before the dispatch, instead of the shared buffer.
\<close>

fun run_snapshot :: "vec2f \<Rightarrow> u32 list \<Rightarrow> vec2u list \<Rightarrow> u32 list \<Rightarrow> u32 list option" where
  "run_snapshot grid cellStateIn [] cellStateOut = Some cellStateOut"
| "run_snapshot grid cellStateIn (c # cs) cellStateOut =
     (case computeMain grid cellStateIn cellStateOut c of
        None \<Rightarrow> None
      | Some out \<Rightarrow> run_snapshot grid cellStateIn cs out)"





section \<open>Properties\<close>

subsection \<open>Buffer accesses of the simulation shader stay in range\<close>






subsection \<open>Index wrapping\<close>

text \<open>
  Reducing a \<open>u32\<close> coordinate modulo the width is the same as reducing the integer
  it stands for, if the width divides \<open>2 ^ 32\<close> or the integer is not negative.
\<close>

lemma umod_word_of_int:
  fixes gw :: u32
  assumes "0 < gw" "unat gw dvd 2 ^ 32 \<or> (0 \<le> z \<and> z < 2 ^ 32)"
  shows "unat (umod (word_of_int z) gw) = nat (z mod int (unat gw))"
proof -
  have W0: "gw \<noteq> 0" using assms(1) by auto
  have m: "unat (umod (word_of_int z) gw) = unat (word_of_int z :: u32) mod unat gw"
    using W0 by (simp add: umod_def unat_mod)
  have u: "unat (word_of_int z :: u32) = nat (z mod 2 ^ 32)"
    by (simp add: unat_eq_nat_uint uint_word_of_int)
  have n: "nat (z mod 2 ^ 32) mod unat gw = nat ((z mod 2 ^ 32) mod int (unat gw))"
    by (simp add: nat_mod_distrib)
  have "(z mod 2 ^ 32) mod int (unat gw) = z mod int (unat gw)"
  proof (cases "unat gw dvd 2 ^ 32")
    case True
    then have "int (unat gw) dvd 2 ^ 32"
      by (metis of_nat_dvd_iff of_nat_numeral of_nat_power)
    then show ?thesis by (rule mod_mod_cancel)
  next
    case False
    then have "0 \<le> z" "z < 2 ^ 32" using assms(2) by simp_all
    then have "z mod 2 ^ 32 = z" by simp
    then show ?thesis by simp
  qed
  with m u n show ?thesis by simp
qed

lemma wrapIndex_eq:
  assumes "0 < W" "0 < H"
  shows "wrapIndex W H x y = nat (y mod int H) * W + nat (x mod int W)"
  using assms by (simp add: wrapIndex_def nat_add_distrib nat_mult_distrib)

lemma wrapIndex_less:
  assumes "0 < W" "0 < H"
  shows "wrapIndex W H x y < W * H"
proof -
  have a: "nat (y mod int H) < H" using assms(2) by (simp add: nat_less_iff)
  have b: "nat (x mod int W) < W" using assms(1) by (simp add: nat_less_iff)
  have "nat (y mod int H) * W + W \<le> H * W"
    using a by (metis Suc_leI mult_Suc mult_le_mono1 add.commute)
  with b show ?thesis by (simp add: wrapIndex_eq [OF assms] mult.commute)
qed

lemma cellIndex_wrapIndex:
  assumes "0 < u32_of_f32 (fx grid)" "0 < u32_of_f32 (fy grid)"
    and "unat (u32_of_f32 (fx grid)) * unat (u32_of_f32 (fy grid)) \<le> 2 ^ 32"
    and "unat (u32_of_f32 (fx grid)) dvd 2 ^ 32 \<or> (0 \<le> x \<and> x < 2 ^ 32)"
    and "unat (u32_of_f32 (fy grid)) dvd 2 ^ 32 \<or> (0 \<le> y \<and> y < 2 ^ 32)"
  shows "unat (cellIndex grid \<lparr>ux = word_of_int x, uy = word_of_int y\<rparr>) =
           wrapIndex (unat (u32_of_f32 (fx grid))) (unat (u32_of_f32 (fy grid))) x y"
proof -
  let ?W = "u32_of_f32 (fx grid)" and ?H = "u32_of_f32 (fy grid)"
  have W: "0 < unat ?W" and H: "0 < unat ?H"
    using assms(1,2) by (simp_all add: unat_gt_0 word_greater_zero_iff)
  have lt: "wrapIndex (unat ?W) (unat ?H) x y < 2 ^ 32"
    using wrapIndex_less [OF W H, of x y] assms(3) by linarith
  have "unat (cellIndex grid \<lparr>ux = word_of_int x, uy = word_of_int y\<rparr>) =
          (nat (y mod int (unat ?H)) * unat ?W + nat (x mod int (unat ?W))) mod 2 ^ 32"
    by (simp add: cellIndex_def unat_word_ariths umod_word_of_int [OF assms(1,4)]
        umod_word_of_int [OF assms(2,5)] mod_add_left_eq mod_mult_left_eq)
  also have "\<dots> = wrapIndex (unat ?W) (unat ?H) x y"
    using lt by (simp add: wrapIndex_eq [OF W H])
  finally show ?thesis .
qed

text \<open>
  Column \<open>W\<close> has the index of column 0 and row \<open>H\<close> the index of row 0, on every grid.
\<close>

lemma umod_self: "umod gw gw = umod 0 gw"
  by (simp add: umod_def)

lemma cellIndex_column_W:
  "cellIndex grid \<lparr>ux = u32_of_f32 (fx grid), uy = y\<rparr> = cellIndex grid \<lparr>ux = 0, uy = y\<rparr> \<and>
   cellIndex grid \<lparr>ux = x, uy = u32_of_f32 (fy grid)\<rparr> = cellIndex grid \<lparr>ux = x, uy = 0\<rparr>"
  by (simp add: cellIndex_def umod_self)

text \<open>
  When the width and the height divide \<open>2 ^ 32\<close>, as the 64 of the program does,
  column \<open>-1\<close> has the index of column \<open>W - 1\<close>, row \<open>-1\<close> the index of row \<open>H - 1\<close>,
  and \<open>cellIndex\<close> is the wrapped index of the specification at all integer coordinates.
\<close>

lemma umod_minus1:
  fixes gw :: u32
  assumes "0 < gw" "unat gw dvd 2 ^ 32"
  shows "umod (0 - 1) gw = umod (gw - 1) gw"
proof -
  have d: "unat gw dvd 2 ^ 32 \<or> (0 \<le> z \<and> z < 2 ^ 32)" for z :: int
    using assms(2) by simp
  have a: "unat (umod (word_of_int (- 1)) gw) = nat ((- 1) mod int (unat gw))"
    by (rule umod_word_of_int [OF assms(1) d])
  have b: "unat (umod (word_of_int (uint gw - 1)) gw) = nat ((uint gw - 1) mod int (unat gw))"
    by (rule umod_word_of_int [OF assms(1) d])
  have c: "(- 1) mod int (unat gw) = (uint gw - 1) mod int (unat gw)" by simp
  have "unat (umod (word_of_int (- 1)) gw) = unat (umod (word_of_int (uint gw - 1)) gw)"
    by (simp only: a b c)
  then have "umod (word_of_int (- 1)) gw = umod (word_of_int (uint gw - 1)) gw"
    by (rule word_unat_eq_iff [THEN iffD2])
  then show ?thesis by simp
qed

lemma cellIndex_wrap_pow2:
  assumes "0 < u32_of_f32 (fx grid)" "0 < u32_of_f32 (fy grid)"
    and "unat (u32_of_f32 (fx grid)) dvd 2 ^ 32" "unat (u32_of_f32 (fy grid)) dvd 2 ^ 32"
    and "unat (u32_of_f32 (fx grid)) * unat (u32_of_f32 (fy grid)) \<le> 2 ^ 32"
  shows "cellIndex grid \<lparr>ux = 0 - 1, uy = y\<rparr> = cellIndex grid \<lparr>ux = u32_of_f32 (fx grid) - 1, uy = y\<rparr> \<and>
         cellIndex grid \<lparr>ux = x, uy = 0 - 1\<rparr> = cellIndex grid \<lparr>ux = x, uy = u32_of_f32 (fy grid) - 1\<rparr> \<and>
         unat (cellIndex grid \<lparr>ux = word_of_int zx, uy = word_of_int zy\<rparr>) =
           wrapIndex (unat (u32_of_f32 (fx grid))) (unat (u32_of_f32 (fy grid))) zx zy"
  using umod_minus1 [OF assms(1,3)] umod_minus1 [OF assms(2,4)]
    cellIndex_wrapIndex [OF assms(1,2,5) disjI1 [OF assms(3)] disjI1 [OF assms(4)]]
  by (simp add: cellIndex_def)

text \<open>
  C4. The shader reaches column \<open>-1\<close> as \<open>x - 1\<close> at \<open>x = 0\<close>, which is the word
  \<open>2 ^ 32 - 1\<close>. On a \<open>5 \<times> 5\<close> grid its remainder modulo 5 is 0: in row 0 the index of
  column \<open>-1\<close> is 0, that of column 0, and not 4, the index of column \<open>W - 1\<close> and the
  value of the specification's formula at column \<open>-1\<close>. Column \<open>W\<close>, reached as \<open>x + 1\<close>
  at \<open>x = 4\<close>, does wrap to column 0.
\<close>

theorem cellIndex_minus_one_on_5x5:
  "cellIndex \<lparr>fx = 5, fy = 5\<rparr> \<lparr>ux = 0 - 1, uy = 0\<rparr> = 0 \<and>
   cellIndex \<lparr>fx = 5, fy = 5\<rparr> \<lparr>ux = u32_of_f32 (fx \<lparr>fx = 5, fy = 5\<rparr>) - 1, uy = 0\<rparr> = 4 \<and>
   cellIndex \<lparr>fx = 5, fy = 5\<rparr> \<lparr>ux = 4 + 1, uy = 0\<rparr> = 0 \<and>
   wrapIndex 5 5 (- 1) 0 = 4"
  by (simp add: cellIndex_def umod_def u32_of_f32_def f32_trunc_def wrapIndex_def)

text \<open>
  The same on a \<open>24 \<times> 24\<close> grid, which the driver dispatches as \<open>3 \<times> 3\<close> workgroups
  with one invocation for each cell: column \<open>-1\<close> has the index of column 15.
\<close>

lemma cellIndex_minus_one_on_24x24:
  "cellIndex \<lparr>fx = 24, fy = 24\<rparr> \<lparr>ux = 0 - 1, uy = 0\<rparr> = 15 \<and>
   wrapIndex 24 24 (- 1) 0 = 23 \<and>
   workgroupCount 24 8 * 8 = 24"
  by (simp add: cellIndex_def umod_def u32_of_f32_def f32_trunc_def wrapIndex_def
      workgroupCount_def)

subsection \<open>The neighbour sum\<close>

text \<open>
  On a grid of at least two columns and two rows, none of the eight wrapped neighbours of
  a cell is the cell itself.
\<close>

lemma wrapIndex_inj:
  assumes "0 < W" "0 < H" "wrapIndex W H x y = wrapIndex W H x' y'"
  shows "x mod int W = x' mod int W \<and> y mod int H = y' mod int H"
proof -
  let ?a = "nat (x mod int W)" and ?a' = "nat (x' mod int W)"
  let ?b = "nat (y mod int H)" and ?b' = "nat (y' mod int H)"
  have a: "?a < W" "?a' < W" using assms(1) by (simp_all add: nat_less_iff)
  have e: "?b * W + ?a = ?b' * W + ?a'"
    using assms(3) by (simp add: wrapIndex_eq [OF assms(1,2)])
  have "(?b * W + ?a) mod W = (?b' * W + ?a') mod W" using e by simp
  then have ea: "?a = ?a'" using a by simp
  have "(?b * W + ?a) div W = (?b' * W + ?a') div W" using e by simp
  then have eb: "?b = ?b'" using a assms(1) by simp
  have "int ?a = int ?a'" "int ?b = int ?b'" using ea eb by simp_all
  then show ?thesis using assms(1,2) by simp
qed

lemma mod_unit_step:
  assumes "2 \<le> W" "(x + d) mod int W = x mod int W" "d \<in> {- 1, 0, 1}"
  shows "d = 0"
proof -
  have "int W dvd (x + d) - x" using assms(2) by (simp add: mod_eq_dvd_iff)
  then have "int W dvd d" by simp
  then show ?thesis using assms(1,3) by auto
qed

lemma moore_neighbours_exclude_self:
  assumes "2 \<le> W" "2 \<le> H" "(dx, dy) \<in> set mooreOffsets"
  shows "wrapIndex W H (x + dx) (y + dy) \<noteq> wrapIndex W H x y"
proof
  assume e: "wrapIndex W H (x + dx) (y + dy) = wrapIndex W H x y"
  have W: "0 < W" and H: "0 < H" using assms(1,2) by simp_all
  from wrapIndex_inj [OF W H e]
  have m: "(x + dx) mod int W = x mod int W" "(y + dy) mod int H = y mod int H" by simp_all
  have d: "dx \<in> {- 1, 0, 1}" "dy \<in> {- 1, 0, 1}" using assms(3) by (auto simp: mooreOffsets_def)
  have "dx = 0" "dy = 0"
    using mod_unit_step [OF assms(1) m(1) d(1)] mod_unit_step [OF assms(2) m(2) d(2)] by simp_all
  then show False using assms(3) by (simp add: mooreOffsets_def)
qed



text \<open>
  C2. On a \<open>5 \<times> 5\<close> grid whose only live cell is \<open>(0, 0)\<close>, the invocation for
  \<open>(0, 0)\<close> reads \<open>(x - 1, y - 1)\<close>, \<open>(x - 1, y)\<close> and \<open>(x, y - 1)\<close> at index 0, the cell
  itself, and computes the sum 3; the eight wrapped Moore neighbours of \<open>(0, 0)\<close> are
  dead and their sum is 0.
\<close>

theorem activeNeighbors_counts_itself_on_5x5:
  "activeNeighbors \<lparr>fx = 5, fy = 5\<rparr>
     [1, 0, 0, 0, 0, 0, 0, 0, 0, 0, 0, 0, 0, 0, 0, 0, 0, 0, 0, 0, 0, 0, 0, 0, 0]
     \<lparr>ux = 0, uy = 0\<rparr> = Some 3 \<and>
   mooreSum 5 5 [1, 0, 0, 0, 0, 0, 0, 0, 0, 0, 0, 0, 0, 0, 0, 0, 0, 0, 0, 0, 0, 0, 0, 0, 0]
     (uint (0 :: u32)) (uint (0 :: u32)) = 0"
  by (simp add: activeNeighbors_def cellActive_def cellIndex_def load_def umod_def
      u32_of_f32_def f32_trunc_def mooreSum_def mooreOffsets_def wrapIndex_def)

subsection \<open>Ping-pong buffers\<close>

lemma bindGroups_nth:
  "binding1 (bindGroups ! (step mod 2)) = step mod 2"
  "binding2 (bindGroups ! (step mod 2)) = (step + 1) mod 2"
proof -
  have "step mod 2 = 0 \<or> step mod 2 = 1" by arith
  then show "binding1 (bindGroups ! (step mod 2)) = step mod 2"
    by (auto simp: bindGroups_def)
  have "step mod 2 = 0 \<and> (step + 1) mod 2 = 1 \<or> step mod 2 = 1 \<and> (step + 1) mod 2 = 0" by arith
  then show "binding2 (bindGroups ! (step mod 2)) = (step + 1) mod 2"
    by (auto simp: bindGroups_def)
qed

lemma run_invocations_snapshot:
  assumes "binding1 bg \<noteq> binding2 bg" "binding1 bg < length bufs" "binding2 bg < length bufs"
  shows "run_invocations grid bg cells bufs =
           map_option (\<lambda>out. bufs[binding2 bg := out])
             (run_snapshot grid (bufs ! binding1 bg) cells (bufs ! binding2 bg))"
  using assms
proof (induction cells arbitrary: bufs)
  case Nil
  then show ?case by simp
next
  case (Cons c cs)
  show ?case
  proof (cases "computeMain grid (bufs ! binding1 bg) (bufs ! binding2 bg) c")
    case None
    then show ?thesis using Cons.prems by (simp add: invoke_def)
  next
    case (Some out)
    let ?bufs' = "bufs[binding2 bg := out]"
    have inv: "invoke grid bg bufs c = Some ?bufs'"
      using Some Cons.prems by (simp add: invoke_def)
    have "run_invocations grid bg cs ?bufs' =
            map_option (\<lambda>out. ?bufs'[binding2 bg := out])
              (run_snapshot grid (?bufs' ! binding1 bg) cs (?bufs' ! binding2 bg))"
      using Cons.prems by (intro Cons.IH) simp_all
    then show ?thesis using inv Some Cons.prems by simp
  qed
qed

text \<open>
  C3. For every value of \<open>step\<close>, the bind group \<open>bindGroups[step % 2]\<close> of the
  compute pass binds \<open>cellStateStorage[step % 2]\<close> as input and
  \<open>cellStateStorage[(step + 1) % 2]\<close> as output; the two indices differ; and a dispatch
  on the two shared buffers gives the same result as a dispatch in which every invocation
  reads the input buffer as it was before the dispatch: no invocation reads a value
  written during the dispatch.
\<close>

theorem ping_pong:
  "binding1 (bindGroups ! (step mod 2)) = step mod 2 \<and>
   binding2 (bindGroups ! (step mod 2)) = (step + 1) mod 2 \<and>
   step mod 2 \<noteq> (step + 1) mod 2 \<and>
   (length bufs = 2 \<longrightarrow>
      run_invocations grid (bindGroups ! (step mod 2)) cells bufs =
        map_option (\<lambda>out. bufs[(step + 1) mod 2 := out])
          (run_snapshot grid (bufs ! (step mod 2)) cells (bufs ! ((step + 1) mod 2))))"
proof -
  have ne: "step mod 2 \<noteq> (step + 1) mod 2" by arith
  have lt: "step mod 2 < 2" "(step + 1) mod 2 < 2" by simp_all
  show ?thesis
    using run_invocations_snapshot [of "bindGroups ! (step mod 2)" bufs grid cells] ne lt
    by (simp add: bindGroups_nth)
qed

text \<open>
  The theorem at \<open>step = 1\<close> on a \<open>2 \<times> 2\<close> grid: buffer B is read, buffer A written.
\<close>

theorem ping_pong_witness:
  "length [[9, 9, 9, 9], [1, 0, 0, 0 :: u32]] = 2 \<and>
   binding1 (bindGroups ! (1 mod 2)) = 1 \<and> binding2 (bindGroups ! (1 mod 2)) = 0 \<and>
   run_invocations \<lparr>fx = 2, fy = 2\<rparr> (bindGroups ! (1 mod 2))
     [\<lparr>ux = 0, uy = 0\<rparr>, \<lparr>ux = 1, uy = 0\<rparr>, \<lparr>ux = 0, uy = 1\<rparr>, \<lparr>ux = 1, uy = 1\<rparr>]
     [[9, 9, 9, 9], [1, 0, 0, 0]] =
   map_option (\<lambda>out. [[9, 9, 9, 9], [1, 0, 0, 0]][(1 + 1) mod 2 := out])
     (run_snapshot \<lparr>fx = 2, fy = 2\<rparr> [1, 0, 0, 0]
        [\<lparr>ux = 0, uy = 0\<rparr>, \<lparr>ux = 1, uy = 0\<rparr>, \<lparr>ux = 0, uy = 1\<rparr>, \<lparr>ux = 1, uy = 1\<rparr>] [9, 9, 9, 9]) \<and>
   run_invocations \<lparr>fx = 2, fy = 2\<rparr> (bindGroups ! (1 mod 2))
     [\<lparr>ux = 0, uy = 0\<rparr>, \<lparr>ux = 1, uy = 0\<rparr>, \<lparr>ux = 0, uy = 1\<rparr>, \<lparr>ux = 1, uy = 1\<rparr>]
     [[9, 9, 9, 9], [1, 0, 0, 0]] = Some [[0, 0, 0, 0], [1, 0, 0, 0]]"
  using ping_pong [of 1 "[[9, 9, 9, 9], [1, 0, 0, 0]]" "\<lparr>fx = 2, fy = 2\<rparr>"
      "[\<lparr>ux = 0, uy = 0\<rparr>, \<lparr>ux = 1, uy = 0\<rparr>, \<lparr>ux = 0, uy = 1\<rparr>, \<lparr>ux = 1, uy = 1\<rparr>]"]
  by (simp add: bindGroups_def invoke_def computeMain_def activeNeighbors_def cellActive_def
      cellIndex_def load_def store_def umod_def u32_of_f32_def f32_trunc_def)

subsection \<open>The rule of the automaton\<close>












subsection \<open>The frame driver\<close>

text \<open>
  At the sizes of the program the dispatch has one invocation for each cell of the grid.
\<close>

lemma dispatch_covers_grid:
  "workgroupCount GRID_SIZE WORKGROUP_SIZE * WORKGROUP_SIZE = GRID_SIZE"
  by (simp add: workgroupCount_def GRID_SIZE_def WORKGROUP_SIZE_def)

text \<open>
  A call of \<open>render\<close> that succeeds increments \<open>step\<close>, changes the buffers as one
  simulation step does, and draws one frame from the buffer that the step has written.
\<close>

lemma tick_simulate:
  assumes "tick gs wg st = Some (st', frames)"
  shows "st_step st' = st_step st + 1 \<and>
         simulate (uniformArray gs) wg (workgroupCount gs wg) 1 (st_step st) (cellStateStorage st) =
           Some (cellStateStorage st') \<and>
         (\<exists>f. frames = [f] \<and>
              draw (uniformArray gs) (cellStateStorage st' ! ((st_step st + 1) mod 2))
                (length vertices) (gs * gs) = Some f)"
  using assms
  by (auto simp: tick_def render_def Let_def bindGroups_nth mod_Suc_eq
      split: option.splits if_splits)

text \<open>
  C5. A call of \<open>render\<close> encodes the compute pass with the bind group that reads
  \<open>cellStateStorage[step % 2]\<close> and writes \<open>cellStateStorage[(step + 1) % 2]\<close>, returns
  \<open>step + 1\<close> as the new counter, and encodes the render pass with the bind group of the
  new counter, whose input buffer is the output buffer of the compute pass. The encoded
  commands depend on \<open>step\<close> through \<open>step % 2\<close> only.
\<close>

theorem render_encoding:
  "render gs wg step =
     ([ComputePass (bindGroups ! (step mod 2)) (workgroupCount gs wg) (workgroupCount gs wg),
       RenderPass (bindGroups ! ((step + 1) mod 2)) 6 (gs * gs)], step + 1) \<and>
   binding1 (bindGroups ! (step mod 2)) = step mod 2 \<and>
   binding2 (bindGroups ! (step mod 2)) = (step + 1) mod 2 \<and>
   binding1 (bindGroups ! ((step + 1) mod 2)) = binding2 (bindGroups ! (step mod 2)) \<and>
   fst (render gs wg step) = fst (render gs wg (step mod 2))"
  by (simp add: render_def Let_def bindGroups_nth vertices_def mod_Suc_eq)

subsection \<open>Linear index and grid coordinates\<close>

text \<open>
  Integers below \<open>2 ^ 24\<close> are converted to \<open>f32\<close> exactly.
\<close>

lemma f32_exponent_small: "n < 2 ^ 24 \<Longrightarrow> f32_exponent n = 0"
  by (subst f32_exponent.simps) simp

lemma f32_round_nat_small: "n < 2 ^ 24 \<Longrightarrow> f32_round_nat n = n"
  by (simp add: f32_round_nat_def f32_exponent_small)

lemma f32_of_u32_small: "unat w < 2 ^ 24 \<Longrightarrow> f32_of_u32 w = real (unat w)"
  by (simp add: f32_of_u32_def f32_round_nat_small)


lemma f32_of_u32_1: "f32_of_u32 1 = 1"
  by (simp add: f32_of_u32_small)

lemma u32_of_f32_real:
  assumes "n < 2 ^ 32"
  shows "u32_of_f32 (real n) = of_nat n"
proof -
  have "int n \<le> 2 ^ 32 - 1" using assms by simp
  then have "max 0 (min (2 ^ 32 - 1) (int n)) = int n" by (simp add: min_def max_def)
  then show ?thesis by (simp add: u32_of_f32_def f32_trunc_def)
qed

lemma unat_of_nat_u32:
  assumes "n < 2 ^ 32"
  shows "unat (of_nat n :: u32) = n"
  using assms by (simp add: unat_of_nat)

lemma fmod_real:
  assumes "0 < W"
  shows "fmod (real i) (real W) = real (i mod W)"
proof -
  have "f32_trunc (real i / real W) = int (i div W)"
    by (simp add: f32_trunc_def floor_divide_of_nat_eq)
  then have "fmod (real i) (real W) = real i - real W * real (i div W)"
    by (simp add: fmod_def)
  moreover have "real i = real W * real (i div W) + real (i mod W)"
    by (metis of_nat_add of_nat_mult mult_div_mod_eq)
  ultimately show ?thesis by linarith
qed

lemma floor_real:
  "real_of_int \<lfloor>real i / real W\<rfloor> = real (i div W)"
  by (simp add: floor_divide_of_nat_eq)

lemma umod_of_nat:
  assumes "x < W" "W < 2 ^ 32"
  shows "umod (of_nat x) (of_nat W :: u32) = of_nat x"
proof -
  have x: "x < 2 ^ 32" using assms by linarith
  have ux: "unat (of_nat x :: u32) = x" using x by (rule unat_of_nat_u32)
  have uW: "unat (of_nat W :: u32) = W" using assms(2) by (rule unat_of_nat_u32)
  have W0: "(of_nat W :: u32) \<noteq> 0" using uW assms(1) by (metis not_less_zero unat_0)
  have "unat (of_nat x mod of_nat W :: u32) = unat (of_nat x :: u32)"
    using assms(1) by (simp only: unat_mod ux uW mod_less)
  then have "(of_nat x mod of_nat W :: u32) = of_nat x"
    by (simp only: word_unat_eq_iff)
  then show ?thesis using W0 by (simp add: umod_def)
qed

lemma grid_bounds:
  assumes "0 < W" "0 < H" "W * H < 2 ^ 32"
  shows "W < 2 ^ 32" "H < (2::nat) ^ 32"
proof -
  have "W \<le> W * H" "H \<le> W * H" using assms(1,2) by simp_all
  then show "W < 2 ^ 32" "H < (2::nat) ^ 32" using assms(3) by linarith+
qed

lemma cell_less:
  assumes "x < W" "y < (H::nat)"
  shows "y * W + x < W * H"
proof -
  have "y * W + W \<le> H * W"
    using assms(2) by (metis Suc_leI mult_Suc mult_le_mono1 add.commute)
  then show ?thesis using assms(1) by (simp add: mult.commute)
qed

lemma cellIndex_of_nat:
  assumes "0 < W" "0 < H" "W * H < 2 ^ 32" "x < W" "y < H"
  shows "cellIndex \<lparr>fx = real W, fy = real H\<rparr> \<lparr>ux = of_nat x, uy = of_nat y\<rparr> = of_nat (y * W + x)"
proof -
  note WH = grid_bounds [OF assms(1-3)]
  show ?thesis
    by (simp add: cellIndex_def u32_of_f32_real [OF WH(1)] u32_of_f32_real [OF WH(2)]
        umod_of_nat [OF assms(4) WH(1)] umod_of_nat [OF assms(5) WH(2)])
qed

text \<open>
  The vertex shader on the instance \<open>i\<close>: with \<open>r\<close> the value of \<open>f32(i)\<close>, the cell
  is \<open>(r mod W, r div W)\<close>, and the position follows from the vertex, the cell state and
  the cell.
\<close>

lemma vertexMain_decode:
  assumes "0 < W" "load cell_state inst = Some s"
  shows "vertexMain \<lparr>fx = real W, fy = real H\<rparr> cell_state \<lparr>vi_pos = p, vi_instance = inst\<rparr> =
           Some \<lparr>vo_pos =
                   \<lparr>px = (fx p * f32_of_u32 s + 1) / real W - 1 +
                           real (f32_round_nat (unat inst) mod W) / real W * 2,
                    py = (fy p * f32_of_u32 s + 1) / real H - 1 +
                           real (f32_round_nat (unat inst) div W) / real H * 2,
                    pz = 0, pw = 1\<rparr>,
                 vo_cell = \<lparr>fx = real (f32_round_nat (unat inst) mod W),
                            fy = real (f32_round_nat (unat inst) div W)\<rparr>\<rparr>"
proof -
  have i: "f32_of_u32 inst = real (f32_round_nat (unat inst))" by (simp add: f32_of_u32_def)
  show ?thesis
    unfolding vertexMain_def
    using assms(2)
    by (simp add: Let_def i fmod_real [OF assms(1)] floor_real vec2f_add_def vec2f_sub_s_def
        vec2f_div_def vec2f_add_s_def vec2f_mul_s_def)
qed

text \<open>
  On a grid of at most \<open>2 ^ 24\<close> cells the index of the simulation shader and the
  decoding of the vertex shader are inverse to each other: the index of \<open>(x, y)\<close> is
  \<open>y * W + x\<close> and is decoded to \<open>(x, y)\<close>; the instance \<open>i\<close> is decoded to
  \<open>(i mod W, i div W)\<close>, whose index is \<open>i\<close>.
\<close>

lemma index_bijection_below_2_24:
  assumes "0 < W" "0 < H" "W * H \<le> 2 ^ 24" "length cell_state = W * H"
    and "x < W" "y < H" "i < W * H"
  shows "unat (cellIndex \<lparr>fx = real W, fy = real H\<rparr> \<lparr>ux = of_nat x, uy = of_nat y\<rparr>) = y * W + x \<and>
         map_option vo_cell
           (vertexMain \<lparr>fx = real W, fy = real H\<rparr> cell_state
              \<lparr>vi_pos = p,
               vi_instance = cellIndex \<lparr>fx = real W, fy = real H\<rparr> \<lparr>ux = of_nat x, uy = of_nat y\<rparr>\<rparr>) =
           Some \<lparr>fx = real x, fy = real y\<rparr> \<and>
         map_option vo_cell
           (vertexMain \<lparr>fx = real W, fy = real H\<rparr> cell_state \<lparr>vi_pos = p, vi_instance = of_nat i\<rparr>) =
           Some \<lparr>fx = real (i mod W), fy = real (i div W)\<rparr> \<and>
         cellIndex \<lparr>fx = real W, fy = real H\<rparr>
           \<lparr>ux = u32_of_f32 (real (i mod W)), uy = u32_of_f32 (real (i div W))\<rparr> = of_nat i"
proof (intro conjI)
  have small: "W * H < 2 ^ 32" using assms(3) by simp
  note WH = grid_bounds [OF assms(1,2) small]
  have lt: "y * W + x < W * H" using assms(5,6) by (rule cell_less)
  then have lt24: "y * W + x < 2 ^ 24" and lt32: "y * W + x < 2 ^ 32"
    using assms(3) by simp_all
  note ci = cellIndex_of_nat [OF assms(1,2) small assms(5,6)]
  have un: "unat (of_nat (y * W + x) :: u32) = y * W + x" by (rule unat_of_nat_u32 [OF lt32])
  show "unat (cellIndex \<lparr>fx = real W, fy = real H\<rparr> \<lparr>ux = of_nat x, uy = of_nat y\<rparr>) = y * W + x"
    by (simp only: ci un)
  have ld: "load cell_state (of_nat (y * W + x)) = Some (cell_state ! (y * W + x))"
    unfolding load_def un using lt assms(4) by simp
  have r: "f32_round_nat (unat (of_nat (y * W + x) :: u32)) = y * W + x"
    using lt24 by (simp only: un f32_round_nat_small)
  from vertexMain_decode [OF assms(1) ld, of H p]
  show "map_option vo_cell
           (vertexMain \<lparr>fx = real W, fy = real H\<rparr> cell_state
              \<lparr>vi_pos = p,
               vi_instance = cellIndex \<lparr>fx = real W, fy = real H\<rparr> \<lparr>ux = of_nat x, uy = of_nat y\<rparr>\<rparr>) =
           Some \<lparr>fx = real x, fy = real y\<rparr>"
    using assms(5) unfolding ci r by simp
  have i24: "i < 2 ^ 24" and i32: "i < 2 ^ 32" using assms(7,3) by simp_all
  have ui: "unat (of_nat i :: u32) = i" by (rule unat_of_nat_u32 [OF i32])
  have li: "load cell_state (of_nat i) = Some (cell_state ! i)"
    unfolding load_def ui using assms(7,4) by simp
  have ri: "f32_round_nat (unat (of_nat i :: u32)) = i"
    using i24 by (simp only: ui f32_round_nat_small)
  from vertexMain_decode [OF assms(1) li, of H p]
  show "map_option vo_cell
           (vertexMain \<lparr>fx = real W, fy = real H\<rparr> cell_state \<lparr>vi_pos = p, vi_instance = of_nat i\<rparr>) =
           Some \<lparr>fx = real (i mod W), fy = real (i div W)\<rparr>"
    unfolding ri by simp
  have xm: "i mod W < W" using assms(1) by simp
  have yd: "i div W < H" using assms(7) by (simp add: less_mult_imp_div_less mult.commute)
  have x32: "i mod W < 2 ^ 32" and y32: "i div W < 2 ^ 32" using xm yd WH by linarith+
  have "cellIndex \<lparr>fx = real W, fy = real H\<rparr>
          \<lparr>ux = u32_of_f32 (real (i mod W)), uy = u32_of_f32 (real (i div W))\<rparr> =
        of_nat (i div W * W + i mod W)"
    by (simp add: u32_of_f32_real [OF x32] u32_of_f32_real [OF y32]
        cellIndex_of_nat [OF assms(1,2) small xm yd])
  then show "cellIndex \<lparr>fx = real W, fy = real H\<rparr>
          \<lparr>ux = u32_of_f32 (real (i mod W)), uy = u32_of_f32 (real (i div W))\<rparr> = of_nat i"
    by simp
qed

text \<open>
  C6. On a \<open>4097 \<times> 4097\<close> grid the instance 16777217 is the cell \<open>(2, 4095)\<close>. The
  vertex shader converts the instance to \<open>f32\<close> first, which gives 16777216, and decodes
  the cell \<open>(1, 4095)\<close>; the simulation shader's index of that cell is 16777216, not
  the instance.
\<close>

theorem decode_rounds_instance_16777217:
  "(16777217 :: nat) < 4097 * 4097 \<and>
   (16777217 :: nat) mod 4097 = 2 \<and> (16777217 :: nat) div 4097 = 4095 \<and>
   map_option vo_cell
     (vertexMain (uniformArray 4097) (replicate (4097 * 4097) 1)
        \<lparr>vi_pos = \<lparr>fx = 0, fy = 0\<rparr>, vi_instance = 16777217\<rparr>) =
     Some \<lparr>fx = 1, fy = 4095\<rparr> \<and>
   cellIndex (uniformArray 4097) \<lparr>ux = 1, uy = 4095\<rparr> = 16777216"
proof -
  have ld: "load (replicate 16785409 (1::u32)) 16777217 = Some 1"
    by (simp add: load_def)
  have cv: "f32_of_u32 16777217 = 16777216"
    by (simp add: f32_of_u32_def f32_round_nat_def f32_exponent.simps)
  have fm: "fmod 16777216 4097 = 1"
    by (simp add: fmod_def f32_trunc_def)
  have ci: "cellIndex \<lparr>fx = 4097, fy = 4097\<rparr> \<lparr>ux = 1, uy = 4095\<rparr> = 16777216"
    by (simp add: cellIndex_def umod_def u32_of_f32_def f32_trunc_def)
  have vm: "map_option vo_cell
     (vertexMain \<lparr>fx = 4097, fy = 4097\<rparr> (replicate 16785409 1)
        \<lparr>vi_pos = \<lparr>fx = 0, fy = 0\<rparr>, vi_instance = 16777217\<rparr>) =
     Some \<lparr>fx = 1, fy = 4095\<rparr>"
    unfolding vertexMain_def by (simp add: ld cv fm Let_def)
  show ?thesis
    using vm ci by (simp add: uniformArray_def)
qed

subsection \<open>The glider on a \<open>5 \<times> 5\<close> grid\<close>


text \<open>
  \<open>simulate\<close> is \<open>simulate_scheduled\<close> with the ids in the order of \<open>global_ids\<close>.
\<close>

lemma simulate_scheduled_replicate:
  "simulate grid wg wc n step bufs =
     simulate_scheduled grid (replicate n (global_ids wg wc wc)) step bufs"
  by (induction n arbitrary: step bufs) (simp_all add: dispatchWorkgroups_def split: option.splits)














subsection \<open>The vertex shader scales the quad by the cell state\<close>




subsection \<open>Seeding\<close>

text \<open>
  C9. The start-up succeeds and leaves \<open>step = 0\<close> and two buffers of
  \<open>GRID_SIZE * GRID_SIZE\<close> cells: in buffer A cell \<open>i\<close> is 1 exactly when the draw of
  iteration \<open>i\<close> is greater than 0.6, and 0 otherwise; buffer B is all zero.
\<close>

theorem startup_seeds:
  "\<exists>st. startup gs random = Some st \<and> st_step st = 0 \<and>
      length (cellStateStorage st) = 2 \<and>
      length (cellStateStorage st ! 0) = gs * gs \<and>
      length (cellStateStorage st ! 1) = gs * gs \<and>
      (\<forall>i < gs * gs.
         cellStateStorage st ! 0 ! i = (if random i > 0.6 then 1 else 0) \<and>
         cellStateStorage st ! 1 ! i = 0)"
  by (simp add: startup_def Let_def writeBuffer_def createBuffer_def cellStateArray_def)

text \<open>
  The theorem on a \<open>2 \<times> 2\<close> grid with the draws 0.7, 0.2, 0.61, 0.6.
\<close>

theorem startup_seeds_witness:
  "startup 2 (\<lambda>i. [0.7, 0.2, 0.61, 0.6] ! i) =
     Some \<lparr>st_step = 0, cellStateStorage = [[1, 0, 1, 0], [0, 0, 0, 0]]\<rparr>"
  using startup_seeds [of 2 "\<lambda>i. [0.7, 0.2, 0.61, 0.6] ! i"]
  by (simp add: startup_def Let_def writeBuffer_def createBuffer_def cellStateArray_def
      upt_conv_Cons numeral_eq_Suc)

subsection \<open>The static variant\<close>

text \<open>
  C10. With the same grid uniform, for an instance whose cell state is 1 the vertex
  shader of the simulated variant returns what the vertex shader of \<open>run.js\<close> returns,
  and the two fragment shaders compute the same colour,
  \<open>(cell.x / grid.x, cell.y / grid.y, 1 - cell.x / grid.x, 1)\<close>.
\<close>

theorem static_variant_is_all_alive:
  assumes "load cell_state (vi_instance input) = Some 1"
  shows "vertexMain grid cell_state input = Some (vertexMain_run grid input) \<and>
         fragmentMain_run grid v = fragmentMain grid v \<and>
         fragmentMain grid v =
           \<lparr>px = fx (vo_cell v) / fx grid, py = fy (vo_cell v) / fy grid,
            pz = 1 - fx (vo_cell v) / fx grid, pw = 1\<rparr>"
  using assms
  by (simp add: vertexMain_def vertexMain_run_def fragmentMain_def fragmentMain_run_def Let_def
      f32_of_u32_1 vec2f_add_def vec2f_sub_s_def vec2f_div_def vec2f_add_s_def vec2f_mul_s_def)

text \<open>
  The theorem on a \<open>4 \<times> 4\<close> grid, at the live instance 6.
\<close>

theorem static_variant_is_all_alive_witness:
  "load [0, 1, 0, 0, 0, 0, 1, 0, 1, 1, 1, 0, 0, 0, 0, 0]
     (vi_instance \<lparr>vi_pos = \<lparr>fx = 0.8, fy = - 0.8\<rparr>, vi_instance = 6\<rparr>) = Some 1 \<and>
   vertexMain \<lparr>fx = 4, fy = 4\<rparr> [0, 1, 0, 0, 0, 0, 1, 0, 1, 1, 1, 0, 0, 0, 0, 0]
     \<lparr>vi_pos = \<lparr>fx = 0.8, fy = - 0.8\<rparr>, vi_instance = 6\<rparr> =
     Some (vertexMain_run \<lparr>fx = 4, fy = 4\<rparr> \<lparr>vi_pos = \<lparr>fx = 0.8, fy = - 0.8\<rparr>, vi_instance = 6\<rparr>)"
proof -
  have l1: "load [0, 1, 0, 0, 0, 0, 1, 0, 1, 1, 1, 0, 0, 0, 0, 0]
     (vi_instance \<lparr>vi_pos = \<lparr>fx = 0.8, fy = - 0.8\<rparr>, vi_instance = 6\<rparr>) = Some 1"
    by (simp add: load_def)
  show ?thesis
    using l1 static_variant_is_all_alive [OF l1, of "\<lparr>fx = 4, fy = 4\<rparr>"] by simp
qed

end
